theory Spec2Isabelle
  imports Main "HOL-Library.Sublist"
begin

section \<open>Signal handlers of the accounts application (signals.py)\<close>

subsection \<open>Entities\<close>

text \<open>
  The handlers read \<open>instance.username\<close> and \<open>instance.email\<close> of a user and
  \<open>instance.title\<close> of a post; all three are text. Both entities are records; whatever
  other fields the framework's entities carry is the extension part of the record scheme.
  The two model classes are the senders that the handlers are registered for.
\<close>

record user =
  username :: string
  email :: string

record post =
  title :: string

datatype model_class = User | Post

text \<open>
  The lifecycle signals of the framework: the two that the module imports, \<open>post_save\<close>
  and \<open>pre_delete\<close>, and \<open>post_delete\<close>, the event after a removal.
\<close>

datatype signal = post_save | pre_delete | post_delete

subsection \<open>The world the handlers act on\<close>

text \<open>
  The keyword arguments of one \<open>send_mail(...)\<close> call, as the handler writes them.
\<close>

record mail_call =
  subject :: string
  message :: string
  from_email :: string
  recipient_list :: "string list"
  fail_silently :: bool

text \<open>
  Every effect is an event appended to a trace, in the order in which it happens: a call of
  the mail-sending capability, the text one \<open>print\<close> call writes to the standard output,
  and the removal of a post's row by the framework.
\<close>

datatype event =
    MailSend mail_call
  | Stdout string
  | RowDeleted post

record world =
  users :: "user list"
  posts :: "post list"
  trace :: "event list"

definition newline :: char where
  "newline = CHR 0x0A"

definition quote :: char where
  "quote = CHR 0x27"

text \<open>
  Python's \<open>print(s)\<close> writes \<open>s\<close> followed by a line feed to the standard output and
  returns \<open>None\<close>.
\<close>

definition print :: "string \<Rightarrow> world \<Rightarrow> world" where
  "print s w = w\<lparr>trace := trace w @ [Stdout (s @ [newline])]\<rparr>"

text \<open>
  Modelled from the spec: the mail-sending capability \<open>send_mail\<close> belongs to the
  framework and is not part of the repository. The spec gives its parameters (subject,
  message, from_email, recipient_list, fail_silently) and the meaning of the flag: it controls
  whether transport errors are suppressed or propagated. The transport itself is a parameter:
  \<open>transport c\<close> is \<open>None\<close> when the message is accepted and \<open>Some e\<close> when the
  transport raises \<open>e\<close>. The result is the number of messages sent, or the error raised.
\<close>

definition send_mail ::
  "(mail_call \<Rightarrow> 'e option) \<Rightarrow> mail_call \<Rightarrow> world \<Rightarrow> ('e + nat) \<times> world" where
  "send_mail transport c w =
     (let w' = w\<lparr>trace := trace w @ [MailSend c]\<rparr> in
      case transport c of
        None \<Rightarrow> (Inr 1, w')
      | Some e \<Rightarrow> if fail_silently c then (Inr 0, w') else (Inl e, w'))"

subsection \<open>The two handlers\<close>

text \<open>
  \<open>send_welcome_email(sender, instance, created, **kwargs)\<close>: when \<open>created\<close> holds, one
  call of \<open>send_mail\<close>; its result is dropped, an error it raises is not caught. The
  handler returns \<open>None\<close>. It reads neither \<open>sender\<close> nor the further keyword
  arguments. \<open>'...{}!'.format(s)\<close> puts the text \<open>s\<close> in the place of the braces
  as it is.
\<close>

definition send_welcome_email ::
  "(mail_call \<Rightarrow> 'e option) \<Rightarrow> model_class \<Rightarrow> 'a user_scheme \<Rightarrow> bool \<Rightarrow> world
     \<Rightarrow> ('e + unit) \<times> world" where
  "send_welcome_email transport sender instance created w =
     (if created then
        (case send_mail transport
                \<lparr>subject = ''Welcome to our site!'',
                 message = ''Thank you for registering, '' @ username instance @ ''!'',
                 from_email = ''from@example.com'',
                 recipient_list = [email instance],
                 fail_silently = False\<rparr> w of
           (Inl e, w') \<Rightarrow> (Inl e, w')
         | (Inr n, w') \<Rightarrow> (Inr (), w'))
      else (Inr (), w))"

text \<open>
  \<open>notify_before_post_delete(sender, instance, **kwargs)\<close>: one \<open>print\<close> of the
  formatted text, the title between two apostrophes as it is. The handler has no
  \<open>raise\<close> and returns \<open>None\<close>.
\<close>

definition notify_before_post_delete ::
  "model_class \<Rightarrow> 'a post_scheme \<Rightarrow> world \<Rightarrow> ('e + unit) \<times> world" where
  "notify_before_post_delete sender instance w =
     (Inr (),
      print (''Post titled '' @ [quote] @ title instance @ [quote]
               @ '' is about to be deleted.'') w)"

subsection \<open>Observations on a run\<close>

text \<open>The events a run has added to the trace of the world it started from.\<close>

definition new_events :: "world \<Rightarrow> world \<Rightarrow> event list" where
  "new_events w w' = drop (length (trace w)) (trace w')"

fun mail_calls :: "event list \<Rightarrow> mail_call list" where
  "mail_calls [] = []"
| "mail_calls (MailSend c # es) = c # mail_calls es"
| "mail_calls (e # es) = mail_calls es"

fun stdout_text :: "event list \<Rightarrow> string" where
  "stdout_text [] = []"
| "stdout_text (Stdout s # es) = s @ stdout_text es"
| "stdout_text (e # es) = stdout_text es"

text \<open>
  The lines of a text written to the output stream: the runs of characters between line
  feeds. A rest that no line feed ends counts as a last line.
\<close>

fun lines_acc :: "string \<Rightarrow> string \<Rightarrow> string list" where
  "lines_acc cur [] = (if cur = [] then [] else [cur])"
| "lines_acc cur (c # cs) =
     (if c = newline then cur # lines_acc [] cs else lines_acc (cur @ [c]) cs)"

definition lines_of :: "string \<Rightarrow> string list" where
  "lines_of s = lines_acc [] s"

subsection \<open>Registration and dispatch\<close>

text \<open>
  The decorator \<open>@receiver(post_save, sender=User)\<close> connects \<open>send_welcome_email\<close> to
  the signal \<open>post_save\<close> for the sender \<open>User\<close>, and \<open>@receiver(pre_delete, sender=Post)\<close>
  connects \<open>notify_before_post_delete\<close> to the signal \<open>pre_delete\<close> for the sender
  \<open>Post\<close>. Nothing else is connected. These are the receivers of each sender, by signal.
\<close>

definition user_receivers ::
  "(mail_call \<Rightarrow> 'e option) \<Rightarrow> signal
     \<Rightarrow> ('a user_scheme \<Rightarrow> bool \<Rightarrow> world \<Rightarrow> ('e + unit) \<times> world) list" where
  "user_receivers transport sig =
     (case sig of post_save \<Rightarrow> [send_welcome_email transport User] | _ \<Rightarrow> [])"

definition post_receivers ::
  "signal \<Rightarrow> ('a post_scheme \<Rightarrow> world \<Rightarrow> ('e + unit) \<times> world) list" where
  "post_receivers sig =
     (case sig of pre_delete \<Rightarrow> [notify_before_post_delete Post] | _ \<Rightarrow> [])"

text \<open>
  Modelled from the spec: the signal dispatch of the framework, which is not part of the
  repository: a publish-subscribe mechanism that invokes the registered callbacks when a
  lifecycle event occurs, synchronously and one after the other. The spec leaves open what
  the dispatch does with an error of a receiver; here the error ends the dispatch and
  reaches the caller, as an exception that nobody catches does.
\<close>

fun send ::
  "('i \<Rightarrow> world \<Rightarrow> ('e + unit) \<times> world) list \<Rightarrow> 'i \<Rightarrow> world \<Rightarrow> ('e + unit) \<times> world" where
  "send [] instance w = (Inr (), w)"
| "send (r # rs) instance w =
     (case r instance w of
        (Inl e, w') \<Rightarrow> (Inl e, w')
      | (Inr u, w') \<Rightarrow> send rs instance w')"

text \<open>
  Modelled from the spec: the deletion of a post, which the framework performs and the
  repository does not contain. The receivers of the pre-deletion event run immediately
  before the triggering operation, here the removal of the row, and those of the
  post-deletion event immediately after it.
\<close>

definition delete_post :: "post \<Rightarrow> world \<Rightarrow> ('e + unit) \<times> world" where
  "delete_post p w =
     (case send (post_receivers pre_delete) p w of
        (Inl e, w1) \<Rightarrow> (Inl e, w1)
      | (Inr u, w1) \<Rightarrow>
          send (post_receivers post_delete) p
            (w1\<lparr>posts := removeAll p (posts w1), trace := trace w1 @ [RowDeleted p]\<rparr>))"

subsection \<open>Properties of the welcome-notification handler\<close>

lemma new_events_append: "new_events w (w\<lparr>trace := trace w @ es\<rparr>) = es"
  by (simp add: new_events_def)

lemma send_welcome_email_created:
  "snd (send_welcome_email transport sender instance True w) =
     w\<lparr>trace := trace w @
        [MailSend \<lparr>subject = ''Welcome to our site!'',
                   message = ''Thank you for registering, '' @ username instance @ ''!'',
                   from_email = ''from@example.com'',
                   recipient_list = [email instance],
                   fail_silently = False\<rparr>]\<rparr>"
  by (simp add: send_welcome_email_def send_mail_def Let_def split: option.splits)

lemma send_welcome_email_not_created:
  "send_welcome_email transport sender instance False w = (Inr (), w)"
  by (simp add: send_welcome_email_def)

text \<open>
  C1: for every invocation of the welcome-notification handler with \<open>created = True\<close>,
  exactly one mail-send call is attempted; its recipient list is the single address
  \<open>instance.email\<close> and its message body contains \<open>instance.username\<close>. This holds
  whatever the transport does with the message.
\<close>

theorem welcome_created_one_call:
  "\<exists>c. mail_calls (new_events w (snd (send_welcome_email transport sender instance True w))) = [c]
       \<and> recipient_list c = [email instance]
       \<and> sublist (username instance) (message c)"
proof -
  let ?c = "\<lparr>subject = ''Welcome to our site!'',
             message = ''Thank you for registering, '' @ username instance @ ''!'',
             from_email = ''from@example.com'',
             recipient_list = [email instance],
             fail_silently = False\<rparr>"
  have one: "mail_calls (new_events w (snd (send_welcome_email transport sender instance True w)))
               = [?c]"
    by (simp only: send_welcome_email_created new_events_append mail_calls.simps)
  have rcpt: "recipient_list ?c = [email instance]"
    by simp
  have "sublist (username instance)
          (''Thank you for registering, '' @ username instance @ ''!'')"
    by (rule sublist_appendI)
  then have body: "sublist (username instance) (message ?c)"
    by (simp only: mail_call.simps)
  from one rcpt body show ?thesis
    by blast
qed

text \<open>
  C2: for every invocation of the welcome-notification handler with \<open>created = False\<close>,
  no mail-send call is attempted: the handler returns normally and leaves the world as it
  was.
\<close>

theorem welcome_not_created_no_call:
  "send_welcome_email transport sender instance False w = (Inr (), w)
   \<and> mail_calls (new_events w (snd (send_welcome_email transport sender instance False w))) = []"
  by (simp add: send_welcome_email_not_created new_events_def)

lemma welcome_calls:
  "mail_calls (new_events w (snd (send_welcome_email transport sender instance created w))) =
     (if created
      then [\<lparr>subject = ''Welcome to our site!'',
             message = ''Thank you for registering, '' @ username instance @ ''!'',
             from_email = ''from@example.com'',
             recipient_list = [email instance],
             fail_silently = False\<rparr>]
      else [])"
proof (cases created)
  case True
  then show ?thesis
    by (simp only: send_welcome_email_created new_events_append mail_calls.simps if_True)
next
  case False
  then show ?thesis
    by (simp add: send_welcome_email_not_created new_events_def)
qed

lemma welcome_outcome:
  "fst (send_welcome_email transport sender instance True w) =
     (case transport \<lparr>subject = ''Welcome to our site!'',
                      message = ''Thank you for registering, '' @ username instance @ ''!'',
                      from_email = ''from@example.com'',
                      recipient_list = [email instance],
                      fail_silently = False\<rparr> of
        None \<Rightarrow> Inr ()
      | Some e \<Rightarrow> Inl e)"
  by (simp add: send_welcome_email_def send_mail_def Let_def split: option.splits)

text \<open>
  C3: for the user with username \<open>alice\<close> and email \<open>alice@example.com\<close> and
  \<open>created = True\<close>, the one attempted notification has the message
  \<open>Thank you for registering, alice!\<close> and the recipient \<open>alice@example.com\<close>.
\<close>

theorem welcome_alice:
  "map (\<lambda>c. (message c, recipient_list c))
     (mail_calls (new_events w (snd (send_welcome_email transport sender
        \<lparr>username = ''alice'', email = ''alice@example.com'', \<dots> = more\<rparr> True w))))
   = [(''Thank you for registering, alice!'', [''alice@example.com''])]"
  by (simp add: welcome_calls)

text \<open>
  C5: every mail-send call of the welcome-notification handler passes
  \<open>fail_silently = False\<close>, and an error the mail transport raises on such a call is the
  outcome of the handler: it is not suppressed.
\<close>

theorem welcome_mail_error_propagates:
  "list_all (\<lambda>c. fail_silently c = False)
     (mail_calls (new_events w (snd (send_welcome_email transport sender instance created w))))
   \<and> (\<forall>c \<in> set (mail_calls
                    (new_events w (snd (send_welcome_email transport sender instance created w)))).
         \<forall>e. transport c = Some e \<longrightarrow>
           fst (send_welcome_email transport sender instance created w) = Inl e)"
proof (cases created)
  case True
  then show ?thesis
    by (simp add: welcome_calls welcome_outcome)
next
  case False
  then show ?thesis
    by (simp add: welcome_calls)
qed

theorem welcome_mail_error_propagates_witness:
  "fst (send_welcome_email (\<lambda>c. Some ''SMTPException'') User
          \<lparr>username = ''alice'', email = ''alice@example.com''\<rparr> True
          \<lparr>users = [], posts = [], trace = []\<rparr>)
     = Inl ''SMTPException''
   \<and> mail_calls (new_events \<lparr>users = [], posts = [], trace = []\<rparr>
        (snd (send_welcome_email (\<lambda>c. Some ''SMTPException'') User
                \<lparr>username = ''alice'', email = ''alice@example.com''\<rparr> True
                \<lparr>users = [], posts = [], trace = []\<rparr>)))
     = [\<lparr>subject = ''Welcome to our site!'',
          message = ''Thank you for registering, alice!'',
          from_email = ''from@example.com'',
          recipient_list = [''alice@example.com''],
          fail_silently = False\<rparr>]"
proof -
  let ?t = "\<lambda>c::mail_call. Some ''SMTPException''"
  let ?u = "\<lparr>username = ''alice'', email = ''alice@example.com''\<rparr>"
  let ?w = "\<lparr>users = [], posts = [], trace = []\<rparr>"
  let ?c = "\<lparr>subject = ''Welcome to our site!'',
             message = ''Thank you for registering, alice!'',
             from_email = ''from@example.com'',
             recipient_list = [''alice@example.com''],
             fail_silently = False\<rparr>"
  have calls: "mail_calls (new_events ?w (snd (send_welcome_email ?t User ?u True ?w))) = [?c]"
    by (simp add: welcome_calls)
  then have mem: "?c \<in> set (mail_calls (new_events ?w (snd (send_welcome_email ?t User ?u True ?w))))"
    by simp
  have raised: "?t ?c = Some ''SMTPException''"
    by simp
  from welcome_mail_error_propagates [of ?w ?t User ?u True] mem raised
  have "fst (send_welcome_email ?t User ?u True ?w) = Inl ''SMTPException''"
    by blast
  with calls show ?thesis
    by simp
qed

text \<open>
  C6: every mail-send call of the welcome-notification handler has the sender address
  \<open>from@example.com\<close>, whatever the input, and the recipient list that holds exactly the
  email of the triggering user.
\<close>

theorem welcome_sender_and_recipients:
  "map (\<lambda>c. (from_email c, recipient_list c))
     (mail_calls (new_events w (snd (send_welcome_email transport sender instance created w))))
   = (if created then [(''from@example.com'', [email instance])] else [])"
  by (simp add: welcome_calls)

text \<open>
  C9: every notification the welcome-notification handler attempts has the subject
  \<open>Welcome to our site!\<close>.
\<close>

theorem welcome_subject:
  "map subject
     (mail_calls (new_events w (snd (send_welcome_email transport sender instance created w))))
   = (if created then [''Welcome to our site!''] else [])"
  by (simp add: welcome_calls)

text \<open>
  C10: the mail-send calls of the welcome-notification handler depend only on the
  \<open>created\<close> flag and on the username and the email of the entity: two invocations that
  agree on these three make the same calls, whatever the other fields of the entities, the
  senders, the transports and the worlds they run in. With the same transport they also
  have the same outcome.
\<close>

theorem welcome_depends_only_on_inputs:
  assumes "username u1 = username u2" and "email u1 = email u2"
  shows "mail_calls (new_events w1 (snd (send_welcome_email t1 s1 u1 created w1)))
           = mail_calls (new_events w2 (snd (send_welcome_email t2 s2 u2 created w2)))
         \<and> fst (send_welcome_email t1 s1 u1 created w1)
           = fst (send_welcome_email t1 s2 u2 created w2)"
proof (cases created)
  case True
  with assms show ?thesis
    by (simp add: welcome_calls welcome_outcome)
next
  case False
  then show ?thesis
    by (simp add: send_welcome_email_not_created new_events_def)
qed

theorem welcome_depends_only_on_inputs_witness:
  "mail_calls (new_events \<lparr>users = [], posts = [], trace = []\<rparr>
      (snd (send_welcome_email (\<lambda>c. None :: string option) User
              \<lparr>username = ''alice'', email = ''alice@example.com'', \<dots> = (7::nat)\<rparr> True
              \<lparr>users = [], posts = [], trace = []\<rparr>)))
   = mail_calls (new_events \<lparr>users = [], posts = [], trace = [Stdout ''x'']\<rparr>
      (snd (send_welcome_email (\<lambda>c. Some ''SMTPException'') Post
              \<lparr>username = ''alice'', email = ''alice@example.com'', \<dots> = True\<rparr> True
              \<lparr>users = [], posts = [], trace = [Stdout ''x'']\<rparr>)))"
proof -
  let ?u1 = "\<lparr>username = ''alice'', email = ''alice@example.com'', \<dots> = (7::nat)\<rparr>"
  let ?u2 = "\<lparr>username = ''alice'', email = ''alice@example.com'', \<dots> = True\<rparr>"
  have n: "username ?u1 = username ?u2"
    by simp
  have m: "email ?u1 = email ?u2"
    by simp
  from welcome_depends_only_on_inputs [OF n m] show ?thesis
    by blast
qed

subsection \<open>Properties of the pre-deletion notice handler\<close>

lemma notify_before_post_delete_run:
  "notify_before_post_delete sender instance w =
     (Inr (),
      w\<lparr>trace := trace w @
         [Stdout (''Post titled '' @ [quote] @ title instance @ [quote]
                    @ '' is about to be deleted.'' @ [newline])]\<rparr>)"
  by (simp add: notify_before_post_delete_def print_def)

lemma notice_events:
  "new_events w (snd (notify_before_post_delete sender instance w)) =
     [Stdout ((''Post titled '' @ [quote] @ title instance @ [quote]
                 @ '' is about to be deleted.'') @ [newline])]"
  by (simp only: notify_before_post_delete_run snd_conv new_events_append append_assoc)

lemma lines_acc_one: "newline \<notin> set s \<Longrightarrow> lines_acc cur (s @ [newline]) = [cur @ s]"
  by (induction s arbitrary: cur) auto

lemma lines_of_one: "newline \<notin> set s \<Longrightarrow> lines_of (s @ [newline]) = [s]"
  using lines_acc_one [of s "[]"] by (simp add: lines_of_def)

text \<open>
  C4, as amended: every invocation of the pre-deletion notice handler makes exactly one write
  to the output, of the text \<open>Post titled '<title>' is about to be deleted.\<close> and a line
  feed, and this text contains the title of the entity. When the title holds no line feed,
  what is written is exactly one line, this text. (For the title \<open>Hello World\<close> that is
  the statement after this one.)
\<close>

theorem notice_writes_title:
  "(let text = ''Post titled '' @ [quote] @ title instance @ [quote]
                 @ '' is about to be deleted.'';
        r = notify_before_post_delete sender instance w
    in new_events w (snd r) = [Stdout (text @ [newline])]
       \<and> sublist (title instance) text
       \<and> (newline \<notin> set (title instance) \<longrightarrow>
            lines_of (stdout_text (new_events w (snd r))) = [text]))"
proof -
  let ?text = "''Post titled '' @ [quote] @ title instance @ [quote]
                 @ '' is about to be deleted.''"
  have "sublist (title instance)
          ((''Post titled '' @ [quote]) @ title instance
             @ ([quote] @ '' is about to be deleted.''))"
    by (rule sublist_appendI)
  then have sub: "sublist (title instance) ?text"
    by (simp only: append_assoc)
  have one: "lines_of (stdout_text [Stdout (?text @ [newline])]) = [?text]"
    if "newline \<notin> set (title instance)"
  proof -
    from that have "newline \<notin> set ?text"
      by (simp add: newline_def quote_def)
    then have "lines_of (?text @ [newline]) = [?text]"
      by (rule lines_of_one)
    then show ?thesis
      by (simp only: stdout_text.simps append_Nil2)
  qed
  from sub one show ?thesis
    by (simp only: Let_def notice_events) blast
qed

theorem notice_writes_title_witness:
  "lines_of (stdout_text (new_events \<lparr>users = [], posts = [], trace = []\<rparr>
      (snd (notify_before_post_delete Post \<lparr>title = ''Hello World''\<rparr>
              \<lparr>users = [], posts = [], trace = []\<rparr> :: (unit + unit) \<times> world))))
   = [''Post titled 'Hello World' is about to be deleted.'']"
proof -
  have no_lf: "newline \<notin> set (title \<lparr>title = ''Hello World''\<rparr>)"
    by (simp add: newline_def)
  have "(let text = ''Post titled '' @ [quote] @ title \<lparr>title = ''Hello World''\<rparr> @ [quote]
                      @ '' is about to be deleted.'';
             r = (notify_before_post_delete Post \<lparr>title = ''Hello World''\<rparr>
                    \<lparr>users = [], posts = [], trace = []\<rparr> :: (unit + unit) \<times> world)
         in new_events \<lparr>users = [], posts = [], trace = []\<rparr> (snd r)
              = [Stdout (text @ [newline])]
            \<and> sublist (title \<lparr>title = ''Hello World''\<rparr>) text
            \<and> (newline \<notin> set (title \<lparr>title = ''Hello World''\<rparr>) \<longrightarrow>
                 lines_of (stdout_text
                   (new_events \<lparr>users = [], posts = [], trace = []\<rparr> (snd r))) = [text]))"
    by (rule notice_writes_title)
  then have "newline \<notin> set (title \<lparr>title = ''Hello World''\<rparr>) \<longrightarrow>
      lines_of (stdout_text (new_events \<lparr>users = [], posts = [], trace = []\<rparr>
        (snd (notify_before_post_delete Post \<lparr>title = ''Hello World''\<rparr>
                \<lparr>users = [], posts = [], trace = []\<rparr> :: (unit + unit) \<times> world))))
      = [''Post titled '' @ [quote] @ title \<lparr>title = ''Hello World''\<rparr> @ [quote]
           @ '' is about to be deleted.'']"
    unfolding Let_def by (elim conjE)
  with no_lf have "lines_of (stdout_text (new_events \<lparr>users = [], posts = [], trace = []\<rparr>
        (snd (notify_before_post_delete Post \<lparr>title = ''Hello World''\<rparr>
                \<lparr>users = [], posts = [], trace = []\<rparr> :: (unit + unit) \<times> world))))
      = [''Post titled '' @ [quote] @ title \<lparr>title = ''Hello World''\<rparr> @ [quote]
           @ '' is about to be deleted.'']"
    by (rule rev_mp)
  then show ?thesis
    by (simp add: quote_def)
qed

text \<open>
  C4, as stated, fails for a title that holds a line feed: for the title made of \<open>a\<close>,
  a line feed and \<open>b\<close> the handler emits two lines, and neither contains the title.
\<close>

theorem notice_two_lines_counterexample:
  "lines_of (stdout_text (new_events \<lparr>users = [], posts = [], trace = []\<rparr>
      (snd (notify_before_post_delete Post \<lparr>title = [CHR ''a'', CHR 0x0A, CHR ''b'']\<rparr>
              \<lparr>users = [], posts = [], trace = []\<rparr> :: (unit + unit) \<times> world))))
   = [''Post titled 'a'', ''b' is about to be deleted.'']
   \<and> \<not> sublist [CHR ''a'', CHR 0x0A, CHR ''b''] ''Post titled 'a''
   \<and> \<not> sublist [CHR ''a'', CHR 0x0A, CHR ''b''] ''b' is about to be deleted.''"
proof (intro conjI)
  show "lines_of (stdout_text (new_events \<lparr>users = [], posts = [], trace = []\<rparr>
      (snd (notify_before_post_delete Post \<lparr>title = [CHR ''a'', CHR 0x0A, CHR ''b'']\<rparr>
              \<lparr>users = [], posts = [], trace = []\<rparr> :: (unit + unit) \<times> world))))
    = [''Post titled 'a'', ''b' is about to be deleted.'']"
    by (simp add: notify_before_post_delete_run new_events_def lines_of_def newline_def
        quote_def)
  show "\<not> sublist [CHR ''a'', CHR 0x0A, CHR ''b''] ''Post titled 'a''"
    by code_simp
  show "\<not> sublist [CHR ''a'', CHR 0x0A, CHR ''b''] ''b' is about to be deleted.''"
    by code_simp
qed

text \<open>
  C7: the pre-deletion notice handler has no effect but its one write to the output: it
  returns normally, the entities are as they were, no mail-send call is made, and the only
  event it adds is that write. This holds for every entity.
\<close>

theorem notice_only_writes:
  "(let r = notify_before_post_delete sender instance w
    in fst r = Inr ()
       \<and> users (snd r) = users w
       \<and> posts (snd r) = posts w
       \<and> mail_calls (new_events w (snd r)) = []
       \<and> trace (snd r) = trace w @ new_events w (snd r)
       \<and> new_events w (snd r) =
           [Stdout (''Post titled '' @ [quote] @ title instance @ [quote]
                      @ '' is about to be deleted.'' @ [newline])])"
  by (simp add: notify_before_post_delete_run new_events_def Let_def)

text \<open>
  C8: the handler is connected to the pre-deletion event and not to the post-deletion
  event, so that in every deletion of a post the text is written before the row is removed:
  the run of the deletion adds the write and then the removal, in this order, and the post
  is still stored when the receivers of the pre-deletion event have run.
\<close>

theorem notice_before_row_deleted:
  "new_events w (snd (delete_post p w)) =
     [Stdout (''Post titled '' @ [quote] @ title p @ [quote]
                @ '' is about to be deleted.'' @ [newline]),
      RowDeleted p]
   \<and> posts (snd (send (post_receivers pre_delete) p w)) = posts w
   \<and> post_receivers post_delete = []"
  by (simp add: delete_post_def post_receivers_def notify_before_post_delete_run new_events_def)

end
